theory Spec2Isabelle
  imports Complex_Main
begin

section \<open>JavaScript values\<close>

text \<open>
  The handler of \<^verbatim>\<open>netlify/functions/createCheckout.js\<close> works on untyped
  JavaScript values: whatever \<^verbatim>\<open>JSON.parse\<close> returns, and the session object the payment
  provider resolves with. A number is an IEEE double: a finite value (a rational), the
  negative zero, an infinity or NaN. The handler does no arithmetic on numbers; it only
  tests them for truthiness and copies them.
\<close>

datatype jsnum = Finite rat | NegZero | PosInfinity | NegInfinity | NaN

datatype jsval =
    JUndefined
  | JNull
  | JBool bool
  | JNum jsnum
  | JStr string
  | JArr "jsval list"
  | JObj "(string \<times> jsval) list"

text \<open>
  An object is the list of its own properties; a read takes the first entry of a key.
  A thrown \<^verbatim>\<open>Error\<close> is its name and its message.
\<close>

record js_error =
  error_name :: string
  message :: string

text \<open>
  ToBoolean: \<^verbatim>\<open>undefined\<close>, \<^verbatim>\<open>null\<close>, \<^verbatim>\<open>false\<close>, \<^verbatim>\<open>0\<close>, \<^verbatim>\<open>-0\<close>, \<^verbatim>\<open>NaN\<close>
  and the empty string are falsy, every other value is truthy.
\<close>

fun truthy :: "jsval \<Rightarrow> bool" where
  "truthy JUndefined = False"
| "truthy JNull = False"
| "truthy (JBool b) = b"
| "truthy (JNum n) = (n \<noteq> Finite 0 \<and> n \<noteq> NegZero \<and> n \<noteq> NaN)"
| "truthy (JStr s) = (s \<noteq> [])"
| "truthy (JArr xs) = True"
| "truthy (JObj kvs) = True"

text \<open>The operator \<^verbatim>\<open>a || b\<close>.\<close>

definition js_or :: "jsval \<Rightarrow> jsval \<Rightarrow> jsval" where
  "js_or a b = (if truthy a then a else b)"

text \<open>
  \<^verbatim>\<open>s || d\<close> where \<^verbatim>\<open>s\<close> is a string or absent (\<^verbatim>\<open>event.body\<close>, an entry of
  \<^verbatim>\<open>process.env\<close>) and \<^verbatim>\<open>d\<close> is a string literal: an absent and an empty string
  both give \<^verbatim>\<open>d\<close>.
\<close>

fun str_or :: "string option \<Rightarrow> string \<Rightarrow> string" where
  "str_or None d = d"
| "str_or (Some s) d = (if s = [] then d else s)"

fun nullish :: "jsval \<Rightarrow> bool" where
  "nullish JUndefined = True"
| "nullish JNull = True"
| "nullish v = False"

text \<open>\<^verbatim>\<open>Array.isArray\<close>.\<close>

fun isArray :: "jsval \<Rightarrow> bool" where
  "isArray (JArr xs) = True"
| "isArray v = False"

text \<open>The elements of an array, in order.\<close>

fun elements :: "jsval \<Rightarrow> jsval list" where
  "elements (JArr xs) = xs"
| "elements v = []"

section \<open>The runtime and the environment\<close>

text \<open>
  What the handler calls and does not define is a parameter of the model:
  \<^item> \<^verbatim>\<open>JSON.parse\<close>, which returns a value or throws (a \<^verbatim>\<open>SyntaxError\<close>);
  \<^item> \<^verbatim>\<open>JSON.stringify\<close>, applied by the handler to object literals only, where it
    returns a string;
  \<^item> the message of the \<^verbatim>\<open>TypeError\<close> that the engine throws when a property of
    \<^verbatim>\<open>undefined\<close> or \<^verbatim>\<open>null\<close> is destructured or read (its text depends on the engine).
\<close>

datatype access = Destructure | Read

record runtime =
  JSON_parse :: "string \<Rightarrow> js_error + jsval"
  JSON_stringify :: "jsval \<Rightarrow> string"
  TypeError_message :: "access \<Rightarrow> jsval \<Rightarrow> string \<Rightarrow> string"

definition type_error :: "runtime \<Rightarrow> access \<Rightarrow> jsval \<Rightarrow> string \<Rightarrow> js_error" where
  "type_error rt a v k = \<lparr>error_name = ''TypeError'', message = TypeError_message rt a v k\<rparr>"

text \<open>
  The own property \<^verbatim>\<open>k\<close> of a value, \<^verbatim>\<open>undefined\<close> when it has none. The handler reads
  \<^verbatim>\<open>items\<close>, \<^verbatim>\<open>name\<close>, \<^verbatim>\<open>price\<close>, \<^verbatim>\<open>quantity\<close> and \<^verbatim>\<open>url\<close> only; no built-in prototype
  defines one of them, so a primitive and an array have none of them.
\<close>

fun own_prop :: "jsval \<Rightarrow> string \<Rightarrow> jsval" where
  "own_prop (JObj kvs) k = (case map_of kvs k of None \<Rightarrow> JUndefined | Some v \<Rightarrow> v)"
| "own_prop v k = JUndefined"

text \<open>
  The read \<^verbatim>\<open>v.k\<close> (and the pattern \<^verbatim>\<open>const { k } = v\<close>): it throws a
  \<^verbatim>\<open>TypeError\<close> on \<^verbatim>\<open>undefined\<close> and \<^verbatim>\<open>null\<close>.
\<close>

definition get_prop :: "runtime \<Rightarrow> access \<Rightarrow> jsval \<Rightarrow> string \<Rightarrow> js_error + jsval" where
  "get_prop rt a v k = (if nullish v then Inl (type_error rt a v k) else Inr (own_prop v k))"

text \<open>
  \<^verbatim>\<open>process.env\<close>: the two redirect URLs, each a string or absent. The secret key only
  configures the provider's client, which is a parameter.
\<close>

record env =
  SUCCESS_URL :: "string option"
  CANCEL_URL :: "string option"

text \<open>
  The promise of \<^verbatim>\<open>stripe.checkout.sessions.create\<close>, as \<^verbatim>\<open>await\<close> sees it: it
  resolves with a session, rejects with an error, or never settles.
\<close>

datatype promise = Resolved jsval | Rejected js_error | Pending

section \<open>Requests, responses and effects\<close>

record event =
  httpMethod :: string
  body :: "string option"

record response =
  statusCode :: nat
  response_body :: string

text \<open>
  What the handler does to the outside, in order: the calls of \<^verbatim>\<open>JSON.parse\<close> and of
  the provider, with their argument, and the calls of \<^verbatim>\<open>console.error\<close>.
\<close>

datatype effect =
    ParseCall string
  | CreateCall jsval
  | ConsoleError string js_error

text \<open>The arguments of the provider's calls in a trace, in order.\<close>

fun provider_calls :: "effect list \<Rightarrow> jsval list" where
  "provider_calls [] = []"
| "provider_calls (CreateCall p # es) = p # provider_calls es"
| "provider_calls (x # es) = provider_calls es"

text \<open>
  How the \<^verbatim>\<open>try\<close> block ends: with a \<^verbatim>\<open>return\<close>, with a throw (caught by the
  \<^verbatim>\<open>catch\<close> clause), or never, on a promise that does not settle.
\<close>

datatype completion = Returned response | Threw js_error | Hung

record outcome =
  result :: "response option"
  trace :: "effect list"

section \<open>The handler\<close>

text \<open>
  The arrow function of \<^verbatim>\<open>items.map\<close>. The object literal reads \<^verbatim>\<open>item.name\<close>, then
  \<^verbatim>\<open>item.price\<close>, then \<^verbatim>\<open>item.quantity\<close>.
\<close>

definition line_item :: "runtime \<Rightarrow> jsval \<Rightarrow> js_error + jsval" where
  "line_item rt item =
     (case get_prop rt Read item ''name'' of
        Inl e \<Rightarrow> Inl e
      | Inr name \<Rightarrow>
          (case get_prop rt Read item ''price'' of
             Inl e \<Rightarrow> Inl e
           | Inr price \<Rightarrow>
               (case get_prop rt Read item ''quantity'' of
                  Inl e \<Rightarrow> Inl e
                | Inr quantity \<Rightarrow>
                    Inr (JObj
                      [(''price_data'', JObj
                          [(''currency'', JStr ''usd''),
                           (''product_data'', JObj [(''name'', name)]),
                           (''unit_amount'', price)]),
                       (''quantity'', js_or quantity (JNum (Finite 1)))]))))"

text \<open>
  \<^verbatim>\<open>items.map\<close>: the elements in order; the first throw ends the loop.
\<close>

fun items_map :: "runtime \<Rightarrow> jsval list \<Rightarrow> js_error + jsval list" where
  "items_map rt [] = Inr []"
| "items_map rt (item # items) =
     (case line_item rt item of
        Inl e \<Rightarrow> Inl e
      | Inr li \<Rightarrow>
          (case items_map rt items of
             Inl e \<Rightarrow> Inl e
           | Inr lis \<Rightarrow> Inr (li # lis)))"

text \<open>The argument of \<^verbatim>\<open>stripe.checkout.sessions.create\<close>.\<close>

definition session_params :: "env \<Rightarrow> jsval list \<Rightarrow> jsval" where
  "session_params ev line_items =
     JObj [(''payment_method_types'', JArr [JStr ''card'']),
           (''line_items'', JArr line_items),
           (''mode'', JStr ''payment''),
           (''success_url'', JStr (str_or (SUCCESS_URL ev) ''https://example.com/success'')),
           (''cancel_url'', JStr (str_or (CANCEL_URL ev) ''https://example.com/cancel''))]"

definition invalid_payload :: "runtime \<Rightarrow> response" where
  "invalid_payload rt =
     \<lparr>statusCode = 400,
      response_body = JSON_stringify rt
        (JObj [(''error'', JStr ''Invalid payload: items must be an array'')])\<rparr>"

text \<open>
  The \<^verbatim>\<open>try\<close> block, from the call of the provider on: the session's \<^verbatim>\<open>url\<close> is read
  and relayed.
\<close>

definition create_session ::
  "runtime \<Rightarrow> (jsval \<Rightarrow> promise) \<Rightarrow> jsval \<Rightarrow> effect list \<times> completion" where
  "create_session rt create params =
     (case create params of
        Resolved session \<Rightarrow>
          (case get_prop rt Read session ''url'' of
             Inl e \<Rightarrow> ([CreateCall params], Threw e)
           | Inr url \<Rightarrow>
               ([CreateCall params],
                Returned \<lparr>statusCode = 200,
                          response_body = JSON_stringify rt (JObj [(''url'', url)])\<rparr>))
      | Rejected e \<Rightarrow> ([CreateCall params], Threw e)
      | Pending \<Rightarrow> ([CreateCall params], Hung))"

text \<open>The \<^verbatim>\<open>try\<close> block, after \<^verbatim>\<open>JSON.parse\<close> has returned.\<close>

definition checkout ::
  "runtime \<Rightarrow> env \<Rightarrow> (jsval \<Rightarrow> promise) \<Rightarrow> jsval \<Rightarrow> effect list \<times> completion" where
  "checkout rt ev create parsed =
     (case get_prop rt Destructure parsed ''items'' of
        Inl e \<Rightarrow> ([], Threw e)
      | Inr items \<Rightarrow>
          (if \<not> isArray items then ([], Returned (invalid_payload rt))
           else
             (case items_map rt (elements items) of
                Inl e \<Rightarrow> ([], Threw e)
              | Inr line_items \<Rightarrow> create_session rt create (session_params ev line_items))))"

definition try_block ::
  "runtime \<Rightarrow> env \<Rightarrow> (jsval \<Rightarrow> promise) \<Rightarrow> event \<Rightarrow> effect list \<times> completion" where
  "try_block rt ev create e =
     (let text = str_or (body e) ''{}'' in
      case JSON_parse rt text of
        Inl err \<Rightarrow> ([ParseCall text], Threw err)
      | Inr parsed \<Rightarrow>
          (case checkout rt ev create parsed of
             (effects, c) \<Rightarrow> (ParseCall text # effects, c)))"

text \<open>\<^verbatim>\<open>exports.handler\<close>: the method gate, the \<^verbatim>\<open>try\<close> block and the \<^verbatim>\<open>catch\<close> clause.\<close>

definition handler :: "runtime \<Rightarrow> env \<Rightarrow> (jsval \<Rightarrow> promise) \<Rightarrow> event \<Rightarrow> outcome" where
  "handler rt ev create e =
     (if httpMethod e \<noteq> ''POST''
      then \<lparr>result = Some \<lparr>statusCode = 405, response_body = ''Method Not Allowed''\<rparr>,
            trace = []\<rparr>
      else
        (case try_block rt ev create e of
           (effects, Returned r) \<Rightarrow> \<lparr>result = Some r, trace = effects\<rparr>
         | (effects, Threw err) \<Rightarrow>
             \<lparr>result = Some \<lparr>statusCode = 500,
                              response_body =
                                JSON_stringify rt (JObj [(''error'', JStr (message err))])\<rparr>,
              trace = effects @ [ConsoleError ''Stripe checkout error:'' err]\<rparr>
         | (effects, Hung) \<Rightarrow> \<lparr>result = None, trace = effects\<rparr>))"

section \<open>Sample requests\<close>

text \<open>
  Concrete requests, on which the theorems below are instantiated. The sample runtime
  parses the request bodies listed in \<open>sample_bodies\<close> to the values Node's
  \<^verbatim>\<open>JSON.parse\<close> gives for them, and answers every other text used below (a truncated
  one) with the \<^verbatim>\<open>SyntaxError\<close> Node throws there. Its \<^verbatim>\<open>JSON.stringify\<close> covers the
  objects the handler builds here: one property whose value is a string that needs no
  escape. Its \<^verbatim>\<open>TypeError\<close> messages are V8's.
\<close>

definition widgets :: "jsval list" where
  "widgets =
     [JObj [(''name'', JStr ''Widget''), (''price'', JNum (Finite 499)),
            (''quantity'', JNum (Finite 0))],
      JObj [(''name'', JStr ''Widget''), (''price'', JNum (Finite 499))],
      JObj [(''name'', JStr ''Widget''), (''price'', JNum (Finite 499)),
            (''quantity'', JNum (Finite 3))]]"

definition widget_line :: "rat \<Rightarrow> jsval" where
  "widget_line q =
     JObj [(''price_data'', JObj
              [(''currency'', JStr ''usd''),
               (''product_data'', JObj [(''name'', JStr ''Widget'')]),
               (''unit_amount'', JNum (Finite 499))]),
           (''quantity'', JNum (Finite q))]"

definition widget_lines :: "jsval list" where
  "widget_lines = [widget_line 1, widget_line 1, widget_line 3]"

definition loose_items :: "jsval list" where
  "loose_items = [JObj [(''price'', JNum (Finite (- 9 / 2)))], JNum (Finite 7), JStr ''x'']"

definition loose_lines :: "jsval list" where
  "loose_lines =
     [JObj [(''price_data'', JObj
              [(''currency'', JStr ''usd''),
               (''product_data'', JObj [(''name'', JUndefined)]),
               (''unit_amount'', JNum (Finite (- 9 / 2)))]),
            (''quantity'', JNum (Finite 1))],
      JObj [(''price_data'', JObj
              [(''currency'', JStr ''usd''),
               (''product_data'', JObj [(''name'', JUndefined)]),
               (''unit_amount'', JUndefined)]),
            (''quantity'', JNum (Finite 1))],
      JObj [(''price_data'', JObj
              [(''currency'', JStr ''usd''),
               (''product_data'', JObj [(''name'', JUndefined)]),
               (''unit_amount'', JUndefined)]),
            (''quantity'', JNum (Finite 1))]]"

definition mixed_items :: "jsval list" where
  "mixed_items =
     [JObj [(''name'', JStr ''Widget''), (''price'', JNum (Finite 499))], JNull,
      JNum (Finite 7)]"

definition body_widgets :: string where
  \<open>body_widgets = ''{"items":[{"name":"Widget","price":499,"quantity":0},{"name":"Widget","price":499},{"name":"Widget","price":499,"quantity":3}]}''\<close>

definition body_loose :: string where
  \<open>body_loose = ''{"items":[{"price":-4.5},7,"x"]}''\<close>

definition body_mixed :: string where
  \<open>body_mixed = ''{"items":[{"name":"Widget","price":499},null,7]}''\<close>

definition body_null_item :: string where
  \<open>body_null_item = ''{"items":[null]}''\<close>

definition body_no_items :: string where
  \<open>body_no_items = ''{"items":[]}''\<close>

definition body_items_null :: string where
  \<open>body_items_null = ''{"items":null}''\<close>

definition body_items_string :: string where
  \<open>body_items_string = ''{"items":"x"}''\<close>

definition body_items_object :: string where
  \<open>body_items_object = ''{"items":{}}''\<close>

definition body_items_number :: string where
  \<open>body_items_number = ''{"items":42}''\<close>

definition body_truncated :: string where
  \<open>body_truncated = ''{"items":''\<close>

definition sample_bodies :: "(string \<times> jsval) list" where
  "sample_bodies =
     [(''{}'', JObj []),
      (''null'', JNull),
      (body_items_null, JObj [(''items'', JNull)]),
      (body_items_string, JObj [(''items'', JStr ''x'')]),
      (body_items_object, JObj [(''items'', JObj [])]),
      (body_items_number, JObj [(''items'', JNum (Finite 42))]),
      (body_no_items, JObj [(''items'', JArr [])]),
      (body_null_item, JObj [(''items'', JArr [JNull])]),
      (body_widgets, JObj [(''items'', JArr widgets)]),
      (body_loose, JObj [(''items'', JArr loose_items)]),
      (body_mixed, JObj [(''items'', JArr mixed_items)])]"

definition unexpected_end :: js_error where
  "unexpected_end = \<lparr>error_name = ''SyntaxError'', message = ''Unexpected end of JSON input''\<rparr>"

definition sample_parse :: "string \<Rightarrow> js_error + jsval" where
  "sample_parse s = (case map_of sample_bodies s of Some v \<Rightarrow> Inr v | None \<Rightarrow> Inl unexpected_end)"

definition sample_stringify :: "jsval \<Rightarrow> string" where
  \<open>sample_stringify v =
     (case v of
        JObj [(k, JStr s)] \<Rightarrow> ''{"'' @ k @ ''":"'' @ s @ ''"}''
      | _ \<Rightarrow> ''{}'')\<close>

definition sample_message :: "access \<Rightarrow> jsval \<Rightarrow> string \<Rightarrow> string" where
  "sample_message a v k =
     (let q = [CHR 0x27]; what = (if v = JNull then ''null'' else ''undefined'') in
      case a of
        Read \<Rightarrow> ''Cannot read properties of '' @ what @ '' (reading '' @ q @ k @ q @ '')''
      | Destructure \<Rightarrow>
          ''Cannot destructure property '' @ q @ k @ q @ '' of '' @ q @ ''JSON.parse(...)'' @ q
            @ '' as it is '' @ what @ ''.'')"

definition sample_runtime :: runtime where
  "sample_runtime =
     \<lparr>JSON_parse = sample_parse, JSON_stringify = sample_stringify,
      TypeError_message = sample_message\<rparr>"

definition sample_env :: env where
  "sample_env = \<lparr>SUCCESS_URL = Some ''https://shop.example/thanks'', CANCEL_URL = None\<rparr>"

definition sample_session :: jsval where
  "sample_session =
     JObj [(''id'', JStr ''cs_test_1''), (''url'', JStr ''https://checkout.example/cs_test_1'')]"

definition accepting :: "jsval \<Rightarrow> promise" where
  "accepting params = Resolved sample_session"

definition invalid_key :: js_error where
  "invalid_key =
     \<lparr>error_name = ''StripeAuthenticationError'', message = ''Invalid API Key provided''\<rparr>"

definition rejecting :: "jsval \<Rightarrow> promise" where
  "rejecting params = Rejected invalid_key"

definition POST :: "string \<Rightarrow> event" where
  "POST s = \<lparr>httpMethod = ''POST'', body = Some s\<rparr>"

section \<open>The transform\<close>

lemma line_item_object:
  "\<not> nullish item \<Longrightarrow>
   line_item rt item =
     Inr (JObj
       [(''price_data'', JObj
           [(''currency'', JStr ''usd''),
            (''product_data'', JObj [(''name'', own_prop item ''name'')]),
            (''unit_amount'', own_prop item ''price'')]),
        (''quantity'', js_or (own_prop item ''quantity'') (JNum (Finite 1)))])"
  by (simp add: line_item_def get_prop_def)

lemma line_item_nullish:
  "nullish item \<Longrightarrow> line_item rt item = Inl (type_error rt Read item ''name'')"
  by (simp add: line_item_def get_prop_def)


lemma items_map_nth:
  "items_map rt xs = Inr lis \<Longrightarrow> i < length xs \<Longrightarrow> line_item rt (xs ! i) = Inr (lis ! i)"
proof (induction xs arbitrary: lis i)
  case Nil
  then show ?case by simp
next
  case (Cons x xs)
  then show ?case
    by (cases i) (auto split: sum.splits)
qed

lemma items_map_total:
  "\<forall>x\<in>set xs. \<not> nullish x \<Longrightarrow> \<exists>lis. items_map rt xs = Inr lis"
  by (induction xs) (auto simp: line_item_object)

lemma items_map_not_nullish:
  "items_map rt xs = Inr lis \<Longrightarrow> x \<in> set xs \<Longrightarrow> \<not> nullish x"
  by (induction xs arbitrary: lis) (auto simp: line_item_nullish split: sum.splits)

lemma find_nullish:
  "\<exists>x\<in>set xs. nullish x \<Longrightarrow> \<exists>x. find nullish xs = Some x \<and> nullish x"
  by (induction xs) auto

lemma items_map_find_nullish:
  "find nullish xs = Some x \<Longrightarrow> items_map rt xs = Inl (type_error rt Read x ''name'')"
  by (induction xs) (auto simp: line_item_object line_item_nullish split: if_splits)

lemma items_map_nth_object:
  assumes "items_map rt items = Inr lis" and "i < length items"
  shows "lis ! i =
     JObj [(''price_data'', JObj
              [(''currency'', JStr ''usd''),
               (''product_data'', JObj [(''name'', own_prop (items ! i) ''name'')]),
               (''unit_amount'', own_prop (items ! i) ''price'')]),
           (''quantity'', js_or (own_prop (items ! i) ''quantity'') (JNum (Finite 1)))]"
proof -
  have "items ! i \<in> set items"
    using assms(2) by simp
  with assms(1) have "\<not> nullish (items ! i)"
    by (rule items_map_not_nullish)
  then have "line_item rt (items ! i) =
     Inr (JObj
       [(''price_data'', JObj
           [(''currency'', JStr ''usd''),
            (''product_data'', JObj [(''name'', own_prop (items ! i) ''name'')]),
            (''unit_amount'', own_prop (items ! i) ''price'')]),
        (''quantity'', js_or (own_prop (items ! i) ''quantity'') (JNum (Finite 1)))])"
    by (rule line_item_object)
  moreover have "line_item rt (items ! i) = Inr (lis ! i)"
    using assms by (rule items_map_nth)
  ultimately show ?thesis by simp
qed

section \<open>The handler on a POST request\<close>

lemma handler_POST:
  "httpMethod e = ''POST'' \<Longrightarrow> JSON_parse rt (str_or (body e) ''{}'') = Inr parsed \<Longrightarrow>
   handler rt ev create e =
     (case checkout rt ev create parsed of
        (effects, Returned r) \<Rightarrow>
          \<lparr>result = Some r, trace = ParseCall (str_or (body e) ''{}'') # effects\<rparr>
      | (effects, Threw err) \<Rightarrow>
          \<lparr>result = Some \<lparr>statusCode = 500,
                           response_body =
                             JSON_stringify rt (JObj [(''error'', JStr (message err))])\<rparr>,
           trace = ParseCall (str_or (body e) ''{}'') # effects
                     @ [ConsoleError ''Stripe checkout error:'' err]\<rparr>
      | (effects, Hung) \<Rightarrow>
          \<lparr>result = None, trace = ParseCall (str_or (body e) ''{}'') # effects\<rparr>)"
  by (simp add: handler_def try_block_def split: prod.splits completion.splits)

lemma checkout_array:
  "\<not> nullish parsed \<Longrightarrow> own_prop parsed ''items'' = JArr xs \<Longrightarrow>
   checkout rt ev create parsed =
     (case items_map rt xs of
        Inl e \<Rightarrow> ([], Threw e)
      | Inr lis \<Rightarrow> create_session rt create (session_params ev lis))"
  by (simp add: checkout_def get_prop_def)

lemma provider_called_once:
  assumes "httpMethod e = ''POST''"
    and "JSON_parse rt (str_or (body e) ''{}'') = Inr parsed"
    and "\<not> nullish parsed"
    and "own_prop parsed ''items'' = JArr xs"
    and "items_map rt xs = Inr lis"
  shows "provider_calls (trace (handler rt ev create e)) = [session_params ev lis]"
proof -
  have "checkout rt ev create parsed = create_session rt create (session_params ev lis)"
    using assms(3,4,5) by (simp add: checkout_array)
  then show ?thesis
    using assms(1,2)
    by (simp add: handler_POST create_session_def split: promise.splits sum.splits)
qed

section \<open>The sample runtime\<close>

lemma sample_runtime_simps:
  "JSON_parse sample_runtime = sample_parse"
  "JSON_stringify sample_runtime = sample_stringify"
  "TypeError_message sample_runtime = sample_message"
  by (simp_all add: sample_runtime_def)

lemmas body_defs =
  body_widgets_def body_loose_def body_mixed_def body_null_item_def body_no_items_def
  body_items_null_def body_items_string_def body_items_object_def body_items_number_def
  body_truncated_def

lemma sample_parse_simps:
  "sample_parse ''{}'' = Inr (JObj [])"
  "sample_parse ''null'' = Inr JNull"
  "sample_parse body_items_null = Inr (JObj [(''items'', JNull)])"
  "sample_parse body_items_string = Inr (JObj [(''items'', JStr ''x'')])"
  "sample_parse body_items_object = Inr (JObj [(''items'', JObj [])])"
  "sample_parse body_items_number = Inr (JObj [(''items'', JNum (Finite 42))])"
  "sample_parse body_no_items = Inr (JObj [(''items'', JArr [])])"
  "sample_parse body_null_item = Inr (JObj [(''items'', JArr [JNull])])"
  "sample_parse body_widgets = Inr (JObj [(''items'', JArr widgets)])"
  "sample_parse body_loose = Inr (JObj [(''items'', JArr loose_items)])"
  "sample_parse body_mixed = Inr (JObj [(''items'', JArr mixed_items)])"
  "sample_parse body_truncated = Inl unexpected_end"
  by (simp_all add: sample_parse_def sample_bodies_def body_defs)

lemma POST_simps:
  "httpMethod (POST s) = ''POST''"
  "body (POST s) = Some s"
  by (simp_all add: POST_def)

lemma body_nonempty:
  "body_widgets \<noteq> []" "body_loose \<noteq> []" "body_mixed \<noteq> []" "body_null_item \<noteq> []"
  "body_no_items \<noteq> []" "body_items_null \<noteq> []" "body_items_string \<noteq> []"
  "body_items_object \<noteq> []" "body_items_number \<noteq> []" "body_truncated \<noteq> []"
  by (simp_all add: body_defs)

lemma widgets_map: "items_map rt widgets = Inr widget_lines"
  by (simp add: widgets_def widget_lines_def widget_line_def line_item_def get_prop_def
      js_or_def)

lemma loose_items_map: "items_map rt loose_items = Inr loose_lines"
  by (simp add: loose_items_def loose_lines_def line_item_def get_prop_def js_or_def)

section \<open>The quantity of a line item\<close>

text \<open>
  C1. For every purchase item of the items array, the quantity of its line item is
  \<^verbatim>\<open>item.quantity\<close> when that value is truthy and 1 otherwise. In particular a
  quantity of 0 gives the quantity 1, and so does an item with no quantity.
\<close>

theorem quantity_truthy_or_one:
  assumes "items_map rt items = Inr lis" and "i < length items"
  shows "own_prop (lis ! i) ''quantity'' =
           (if truthy (own_prop (items ! i) ''quantity'')
            then own_prop (items ! i) ''quantity'' else JNum (Finite 1))
       \<and> (own_prop (items ! i) ''quantity'' = JNum (Finite 0)
            \<longrightarrow> own_prop (lis ! i) ''quantity'' = JNum (Finite 1))
       \<and> ((\<exists>kvs. items ! i = JObj kvs \<and> map_of kvs ''quantity'' = None)
            \<longrightarrow> own_prop (lis ! i) ''quantity'' = JNum (Finite 1))"
proof -
  have "own_prop (lis ! i) ''quantity'' =
          js_or (own_prop (items ! i) ''quantity'') (JNum (Finite 1))"
    by (simp add: items_map_nth_object [OF assms])
  then show ?thesis
    by (auto simp: js_or_def)
qed

theorem quantity_truthy_or_one_witness:
  "items_map sample_runtime widgets = Inr widget_lines
   \<and> length widgets = 3
   \<and> own_prop (widgets ! 0) ''quantity'' = JNum (Finite 0)
   \<and> own_prop (widget_lines ! 0) ''quantity'' = JNum (Finite 1)
   \<and> widgets ! 1 = JObj [(''name'', JStr ''Widget''), (''price'', JNum (Finite 499))]
   \<and> map_of [(''name'', JStr ''Widget''), (''price'', JNum (Finite 499))] ''quantity'' = None
   \<and> own_prop (widget_lines ! 1) ''quantity'' = JNum (Finite 1)
   \<and> own_prop (widgets ! 2) ''quantity'' = JNum (Finite 3)
   \<and> own_prop (widget_lines ! 2) ''quantity'' = JNum (Finite 3)"
proof -
  have m: "items_map sample_runtime widgets = Inr widget_lines"
    by (rule widgets_map)
  have n: "length widgets = 3"
    by (simp add: widgets_def)
  have q0: "own_prop (widgets ! 0) ''quantity'' = JNum (Finite 0)"
    and w1: "widgets ! 1 = JObj [(''name'', JStr ''Widget''), (''price'', JNum (Finite 499))]"
    and q2: "own_prop (widgets ! 2) ''quantity'' = JNum (Finite 3)"
    by (simp_all add: widgets_def)
  have none: "map_of [(''name'', JStr ''Widget''), (''price'', JNum (Finite 499))] ''quantity'' = None"
    by simp
  have "own_prop (widget_lines ! 0) ''quantity'' = JNum (Finite 1)"
    using quantity_truthy_or_one [OF m, of 0] n q0 by simp
  moreover have "own_prop (widget_lines ! 1) ''quantity'' = JNum (Finite 1)"
    using quantity_truthy_or_one [OF m, of 1] n w1 by simp
  moreover have "own_prop (widget_lines ! 2) ''quantity'' = JNum (Finite 3)"
    using quantity_truthy_or_one [OF m, of 2] n q2 by simp
  ultimately show ?thesis
    using m n q0 w1 none q2 by simp
qed

section \<open>Failures\<close>

text \<open>
  C2. On a POST request, a failure raised by the parse of the body (a malformed JSON
  text among them), by the transform or by the provider's call has one outcome: the
  error is logged once, and the response has status 500 and the JSON body with the
  error's message under \<^verbatim>\<open>error\<close>. A malformed body gives 500, not 400.
\<close>

theorem failure_gives_500:
  assumes "httpMethod e = ''POST''"
  shows "(JSON_parse rt (str_or (body e) ''{}'') = Inl err \<longrightarrow>
            handler rt ev create e =
              \<lparr>result = Some \<lparr>statusCode = 500,
                 response_body = JSON_stringify rt (JObj [(''error'', JStr (message err))])\<rparr>,
               trace = [ParseCall (str_or (body e) ''{}''),
                        ConsoleError ''Stripe checkout error:'' err]\<rparr>)
       \<and> (JSON_parse rt (str_or (body e) ''{}'') = Inr parsed \<and> \<not> nullish parsed
            \<and> own_prop parsed ''items'' = JArr xs \<and> items_map rt xs = Inl err \<longrightarrow>
            handler rt ev create e =
              \<lparr>result = Some \<lparr>statusCode = 500,
                 response_body = JSON_stringify rt (JObj [(''error'', JStr (message err))])\<rparr>,
               trace = [ParseCall (str_or (body e) ''{}''),
                        ConsoleError ''Stripe checkout error:'' err]\<rparr>)
       \<and> (JSON_parse rt (str_or (body e) ''{}'') = Inr parsed \<and> \<not> nullish parsed
            \<and> own_prop parsed ''items'' = JArr xs \<and> items_map rt xs = Inr lis
            \<and> create (session_params ev lis) = Rejected err \<longrightarrow>
            handler rt ev create e =
              \<lparr>result = Some \<lparr>statusCode = 500,
                 response_body = JSON_stringify rt (JObj [(''error'', JStr (message err))])\<rparr>,
               trace = [ParseCall (str_or (body e) ''{}''),
                        CreateCall (session_params ev lis),
                        ConsoleError ''Stripe checkout error:'' err]\<rparr>)"
proof (intro conjI impI)
  assume "JSON_parse rt (str_or (body e) ''{}'') = Inl err"
  with assms show "handler rt ev create e =
      \<lparr>result = Some \<lparr>statusCode = 500,
         response_body = JSON_stringify rt (JObj [(''error'', JStr (message err))])\<rparr>,
       trace = [ParseCall (str_or (body e) ''{}''),
                ConsoleError ''Stripe checkout error:'' err]\<rparr>"
    by (simp add: handler_def try_block_def)
next
  assume a: "JSON_parse rt (str_or (body e) ''{}'') = Inr parsed \<and> \<not> nullish parsed
            \<and> own_prop parsed ''items'' = JArr xs \<and> items_map rt xs = Inl err"
  then have "checkout rt ev create parsed = ([], Threw err)"
    by (simp add: checkout_array)
  with a assms show "handler rt ev create e =
      \<lparr>result = Some \<lparr>statusCode = 500,
         response_body = JSON_stringify rt (JObj [(''error'', JStr (message err))])\<rparr>,
       trace = [ParseCall (str_or (body e) ''{}''),
                ConsoleError ''Stripe checkout error:'' err]\<rparr>"
    by (simp add: handler_POST)
next
  assume a: "JSON_parse rt (str_or (body e) ''{}'') = Inr parsed \<and> \<not> nullish parsed
            \<and> own_prop parsed ''items'' = JArr xs \<and> items_map rt xs = Inr lis
            \<and> create (session_params ev lis) = Rejected err"
  then have "checkout rt ev create parsed = ([CreateCall (session_params ev lis)], Threw err)"
    by (simp add: checkout_array create_session_def)
  with a assms show "handler rt ev create e =
      \<lparr>result = Some \<lparr>statusCode = 500,
         response_body = JSON_stringify rt (JObj [(''error'', JStr (message err))])\<rparr>,
       trace = [ParseCall (str_or (body e) ''{}''),
                CreateCall (session_params ev lis),
                ConsoleError ''Stripe checkout error:'' err]\<rparr>"
    by (simp add: handler_POST)
qed

theorem failure_gives_500_witness:
  "httpMethod (POST body_truncated) = ''POST''
   \<and> JSON_parse sample_runtime (str_or (body (POST body_truncated)) ''{}'') = Inl unexpected_end
   \<and> handler sample_runtime sample_env accepting (POST body_truncated) =
       \<lparr>result = Some \<lparr>statusCode = 500,
          response_body = sample_stringify
            (JObj [(''error'', JStr ''Unexpected end of JSON input'')])\<rparr>,
        trace = [ParseCall body_truncated,
                 ConsoleError ''Stripe checkout error:'' unexpected_end]\<rparr>
   \<and> JSON_parse sample_runtime (str_or (body (POST body_null_item)) ''{}'')
       = Inr (JObj [(''items'', JArr [JNull])])
   \<and> items_map sample_runtime [JNull] = Inl (type_error sample_runtime Read JNull ''name'')
   \<and> handler sample_runtime sample_env accepting (POST body_null_item) =
       \<lparr>result = Some \<lparr>statusCode = 500,
          response_body = sample_stringify
            (JObj [(''error'', JStr (sample_message Read JNull ''name''))])\<rparr>,
        trace = [ParseCall body_null_item,
                 ConsoleError ''Stripe checkout error:''
                   (type_error sample_runtime Read JNull ''name'')]\<rparr>
   \<and> JSON_parse sample_runtime (str_or (body (POST body_no_items)) ''{}'')
       = Inr (JObj [(''items'', JArr [])])
   \<and> rejecting (session_params sample_env []) = Rejected invalid_key
   \<and> handler sample_runtime sample_env rejecting (POST body_no_items) =
       \<lparr>result = Some \<lparr>statusCode = 500,
          response_body = sample_stringify
            (JObj [(''error'', JStr ''Invalid API Key provided'')])\<rparr>,
        trace = [ParseCall body_no_items, CreateCall (session_params sample_env []),
                 ConsoleError ''Stripe checkout error:'' invalid_key]\<rparr>"
proof -
  have p1: "JSON_parse sample_runtime (str_or (body (POST body_truncated)) ''{}'') = Inl unexpected_end"
    by (simp add: POST_simps body_nonempty sample_runtime_simps sample_parse_simps)
  have p2: "JSON_parse sample_runtime (str_or (body (POST body_null_item)) ''{}'')
       = Inr (JObj [(''items'', JArr [JNull])])"
    by (simp add: POST_simps body_nonempty sample_runtime_simps sample_parse_simps)
  have p3: "JSON_parse sample_runtime (str_or (body (POST body_no_items)) ''{}'')
       = Inr (JObj [(''items'', JArr [])])"
    by (simp add: POST_simps body_nonempty sample_runtime_simps sample_parse_simps)
  have m2: "items_map sample_runtime [JNull] = Inl (type_error sample_runtime Read JNull ''name'')"
    by (simp add: line_item_nullish)
  have r3: "rejecting (session_params sample_env []) = Rejected invalid_key"
    by (simp add: rejecting_def)
  have "handler sample_runtime sample_env accepting (POST body_truncated) =
       \<lparr>result = Some \<lparr>statusCode = 500,
          response_body = sample_stringify
            (JObj [(''error'', JStr ''Unexpected end of JSON input'')])\<rparr>,
        trace = [ParseCall body_truncated,
                 ConsoleError ''Stripe checkout error:'' unexpected_end]\<rparr>"
    using failure_gives_500 [of "POST body_truncated" sample_runtime unexpected_end] p1
    by (simp add: POST_simps body_nonempty sample_runtime_simps unexpected_end_def)
  moreover have "handler sample_runtime sample_env accepting (POST body_null_item) =
       \<lparr>result = Some \<lparr>statusCode = 500,
          response_body = sample_stringify
            (JObj [(''error'', JStr (sample_message Read JNull ''name''))])\<rparr>,
        trace = [ParseCall body_null_item,
                 ConsoleError ''Stripe checkout error:''
                   (type_error sample_runtime Read JNull ''name'')]\<rparr>"
    using failure_gives_500 [of "POST body_null_item" sample_runtime
        "type_error sample_runtime Read JNull ''name''" sample_env accepting
        "JObj [(''items'', JArr [JNull])]" "[JNull]"] p2 m2
    by (simp add: POST_simps body_nonempty sample_runtime_simps type_error_def)
  moreover have "handler sample_runtime sample_env rejecting (POST body_no_items) =
       \<lparr>result = Some \<lparr>statusCode = 500,
          response_body = sample_stringify
            (JObj [(''error'', JStr ''Invalid API Key provided'')])\<rparr>,
        trace = [ParseCall body_no_items, CreateCall (session_params sample_env []),
                 ConsoleError ''Stripe checkout error:'' invalid_key]\<rparr>"
    using failure_gives_500 [of "POST body_no_items" sample_runtime invalid_key sample_env
        rejecting "JObj [(''items'', JArr [])]" "[]" "[]"] p3 r3
    by (simp add: POST_simps body_nonempty sample_runtime_simps invalid_key_def)
  ultimately show ?thesis
    using p1 p2 p3 m2 r3 by (simp add: POST_simps)
qed

section \<open>The shape check\<close>

text \<open>
  C3, as the code has it. On a POST request whose body parses to a value other than
  \<^verbatim>\<open>null\<close>, when the \<^verbatim>\<open>items\<close> field of that value is not an array (absent, \<^verbatim>\<open>null\<close>, a
  scalar, an object that is no array), the response has status 400 and the JSON body
  with the error \<^verbatim>\<open>Invalid payload: items must be an array\<close>, and the provider is not
  called. An empty array is valid: the provider is called and the status is not 400.
\<close>

theorem items_not_array_gives_400:
  assumes "httpMethod e = ''POST''"
    and "JSON_parse rt (str_or (body e) ''{}'') = Inr parsed"
    and "\<not> nullish parsed"
  shows "(\<not> isArray (own_prop parsed ''items'') \<longrightarrow>
            handler rt ev create e =
              \<lparr>result = Some \<lparr>statusCode = 400,
                 response_body = JSON_stringify rt
                   (JObj [(''error'', JStr ''Invalid payload: items must be an array'')])\<rparr>,
               trace = [ParseCall (str_or (body e) ''{}'')]\<rparr>)
       \<and> (own_prop parsed ''items'' = JArr [] \<longrightarrow>
            provider_calls (trace (handler rt ev create e)) = [session_params ev []]
            \<and> (\<forall>r. result (handler rt ev create e) = Some r \<longrightarrow> statusCode r \<noteq> 400))"
proof (intro conjI impI)
  assume "\<not> isArray (own_prop parsed ''items'')"
  with assms(3) have "checkout rt ev create parsed = ([], Returned (invalid_payload rt))"
    by (simp add: checkout_def get_prop_def)
  with assms show "handler rt ev create e =
      \<lparr>result = Some \<lparr>statusCode = 400,
         response_body = JSON_stringify rt
           (JObj [(''error'', JStr ''Invalid payload: items must be an array'')])\<rparr>,
       trace = [ParseCall (str_or (body e) ''{}'')]\<rparr>"
    by (simp add: handler_POST invalid_payload_def)
next
  assume a: "own_prop parsed ''items'' = JArr []"
  with assms(3) have c: "checkout rt ev create parsed = create_session rt create (session_params ev [])"
    by (simp add: checkout_array)
  show "provider_calls (trace (handler rt ev create e)) = [session_params ev []]"
    using assms a by (simp add: provider_called_once)
  show "\<forall>r. result (handler rt ev create e) = Some r \<longrightarrow> statusCode r \<noteq> 400"
    using assms c
    by (auto simp: handler_POST create_session_def split: promise.splits sum.splits)
qed

theorem items_not_array_gives_400_witness:
  "JSON_parse sample_runtime (str_or (body \<lparr>httpMethod = ''POST'', body = None\<rparr>) ''{}'')
     = Inr (JObj [])
   \<and> \<not> isArray (own_prop (JObj []) ''items'')
   \<and> handler sample_runtime sample_env accepting \<lparr>httpMethod = ''POST'', body = None\<rparr> =
       \<lparr>result = Some \<lparr>statusCode = 400,
          response_body = sample_stringify
            (JObj [(''error'', JStr ''Invalid payload: items must be an array'')])\<rparr>,
        trace = [ParseCall ''{}'']\<rparr>
   \<and> JSON_parse sample_runtime (str_or (body (POST body_items_null)) ''{}'')
       = Inr (JObj [(''items'', JNull)])
   \<and> result (handler sample_runtime sample_env accepting (POST body_items_null)) =
       Some \<lparr>statusCode = 400,
          response_body = sample_stringify
            (JObj [(''error'', JStr ''Invalid payload: items must be an array'')])\<rparr>
   \<and> JSON_parse sample_runtime (str_or (body (POST body_items_string)) ''{}'')
       = Inr (JObj [(''items'', JStr ''x'')])
   \<and> result (handler sample_runtime sample_env accepting (POST body_items_string)) =
       Some \<lparr>statusCode = 400,
          response_body = sample_stringify
            (JObj [(''error'', JStr ''Invalid payload: items must be an array'')])\<rparr>
   \<and> JSON_parse sample_runtime (str_or (body (POST body_items_object)) ''{}'')
       = Inr (JObj [(''items'', JObj [])])
   \<and> result (handler sample_runtime sample_env accepting (POST body_items_object)) =
       Some \<lparr>statusCode = 400,
          response_body = sample_stringify
            (JObj [(''error'', JStr ''Invalid payload: items must be an array'')])\<rparr>
   \<and> JSON_parse sample_runtime (str_or (body (POST body_items_number)) ''{}'')
       = Inr (JObj [(''items'', JNum (Finite 42))])
   \<and> result (handler sample_runtime sample_env accepting (POST body_items_number)) =
       Some \<lparr>statusCode = 400,
          response_body = sample_stringify
            (JObj [(''error'', JStr ''Invalid payload: items must be an array'')])\<rparr>
   \<and> JSON_parse sample_runtime (str_or (body (POST body_no_items)) ''{}'')
       = Inr (JObj [(''items'', JArr [])])
   \<and> provider_calls (trace (handler sample_runtime sample_env accepting (POST body_no_items)))
       = [session_params sample_env []]
   \<and> result (handler sample_runtime sample_env accepting (POST body_no_items))
       \<noteq> Some \<lparr>statusCode = 400,
          response_body = sample_stringify
            (JObj [(''error'', JStr ''Invalid payload: items must be an array'')])\<rparr>"
proof -
  let ?absent = "\<lparr>httpMethod = ''POST'', body = None\<rparr>"
  have p0: "JSON_parse sample_runtime (str_or (body ?absent) ''{}'') = Inr (JObj [])"
    by (simp add: sample_runtime_simps sample_parse_simps)
  have p1: "JSON_parse sample_runtime (str_or (body (POST body_items_null)) ''{}'')
       = Inr (JObj [(''items'', JNull)])"
    and p2: "JSON_parse sample_runtime (str_or (body (POST body_items_string)) ''{}'')
       = Inr (JObj [(''items'', JStr ''x'')])"
    and p3: "JSON_parse sample_runtime (str_or (body (POST body_items_object)) ''{}'')
       = Inr (JObj [(''items'', JObj [])])"
    and p4: "JSON_parse sample_runtime (str_or (body (POST body_items_number)) ''{}'')
       = Inr (JObj [(''items'', JNum (Finite 42))])"
    and p5: "JSON_parse sample_runtime (str_or (body (POST body_no_items)) ''{}'')
       = Inr (JObj [(''items'', JArr [])])"
    by (simp_all add: POST_simps body_nonempty sample_runtime_simps sample_parse_simps)
  have "handler sample_runtime sample_env accepting ?absent =
       \<lparr>result = Some \<lparr>statusCode = 400,
          response_body = sample_stringify
            (JObj [(''error'', JStr ''Invalid payload: items must be an array'')])\<rparr>,
        trace = [ParseCall ''{}'']\<rparr>"
    using items_not_array_gives_400 [OF _ p0, of sample_env accepting]
    by (simp add: sample_runtime_simps)
  moreover have "result (handler sample_runtime sample_env accepting (POST body_items_null)) =
       Some \<lparr>statusCode = 400,
          response_body = sample_stringify
            (JObj [(''error'', JStr ''Invalid payload: items must be an array'')])\<rparr>"
    using items_not_array_gives_400 [OF _ p1, of sample_env accepting]
    by (simp add: sample_runtime_simps POST_simps)
  moreover have "result (handler sample_runtime sample_env accepting (POST body_items_string)) =
       Some \<lparr>statusCode = 400,
          response_body = sample_stringify
            (JObj [(''error'', JStr ''Invalid payload: items must be an array'')])\<rparr>"
    using items_not_array_gives_400 [OF _ p2, of sample_env accepting]
    by (simp add: sample_runtime_simps POST_simps)
  moreover have "result (handler sample_runtime sample_env accepting (POST body_items_object)) =
       Some \<lparr>statusCode = 400,
          response_body = sample_stringify
            (JObj [(''error'', JStr ''Invalid payload: items must be an array'')])\<rparr>"
    using items_not_array_gives_400 [OF _ p3, of sample_env accepting]
    by (simp add: sample_runtime_simps POST_simps)
  moreover have "result (handler sample_runtime sample_env accepting (POST body_items_number)) =
       Some \<lparr>statusCode = 400,
          response_body = sample_stringify
            (JObj [(''error'', JStr ''Invalid payload: items must be an array'')])\<rparr>"
    using items_not_array_gives_400 [OF _ p4, of sample_env accepting]
    by (simp add: sample_runtime_simps POST_simps)
  moreover have "provider_calls (trace (handler sample_runtime sample_env accepting (POST body_no_items)))
       = [session_params sample_env []]
     \<and> result (handler sample_runtime sample_env accepting (POST body_no_items))
       \<noteq> Some \<lparr>statusCode = 400,
          response_body = sample_stringify
            (JObj [(''error'', JStr ''Invalid payload: items must be an array'')])\<rparr>"
    using items_not_array_gives_400 [OF _ p5, of sample_env accepting]
    by (auto simp: POST_simps)
  ultimately show ?thesis
    using p0 p1 p2 p3 p4 p5 by simp
qed

text \<open>
  The claim C3 as it is written covers every POST request whose body parses
  successfully. The body \<^verbatim>\<open>null\<close> parses successfully, to the value \<^verbatim>\<open>null\<close>, which has
  no \<^verbatim>\<open>items\<close> field that is an array; the destructuring throws before the shape check
  is reached, and the response has status 500 and one log entry, not the 400 response.
\<close>

theorem null_body_is_not_400:
  "httpMethod (POST ''null'') = ''POST''
   \<and> JSON_parse sample_runtime (str_or (body (POST ''null'')) ''{}'') = Inr JNull
   \<and> \<not> isArray (own_prop JNull ''items'')
   \<and> result (handler sample_runtime sample_env accepting (POST ''null''))
       = Some \<lparr>statusCode = 500,
          response_body = JSON_stringify sample_runtime
            (JObj [(''error'', JStr (sample_message Destructure JNull ''items''))])\<rparr>
   \<and> result (handler sample_runtime sample_env accepting (POST ''null''))
       \<noteq> Some \<lparr>statusCode = 400,
          response_body = JSON_stringify sample_runtime
            (JObj [(''error'', JStr ''Invalid payload: items must be an array'')])\<rparr>
   \<and> trace (handler sample_runtime sample_env accepting (POST ''null'')) =
       [ParseCall ''null'',
        ConsoleError ''Stripe checkout error:''
          (type_error sample_runtime Destructure JNull ''items'')]"
proof -
  have p: "JSON_parse sample_runtime (str_or (body (POST ''null'')) ''{}'') = Inr JNull"
    by (simp add: POST_simps sample_runtime_simps sample_parse_simps)
  have "checkout sample_runtime sample_env accepting JNull
      = ([], Threw (type_error sample_runtime Destructure JNull ''items''))"
    by (simp add: checkout_def get_prop_def)
  with p have "handler sample_runtime sample_env accepting (POST ''null'') =
      \<lparr>result = Some \<lparr>statusCode = 500,
         response_body = JSON_stringify sample_runtime
           (JObj [(''error'',
                   JStr (message (type_error sample_runtime Destructure JNull ''items'')))])\<rparr>,
       trace = [ParseCall ''null'',
                ConsoleError ''Stripe checkout error:''
                  (type_error sample_runtime Destructure JNull ''items'')]\<rparr>"
    by (simp add: handler_POST POST_simps)
  with p show ?thesis
    by (simp add: POST_simps type_error_def sample_runtime_simps)
qed

section \<open>Count and order of the line items\<close>



section \<open>The method gate\<close>

text \<open>
  C5. On a request whose method is not POST, the handler returns at once: status 405,
  the plain text \<^verbatim>\<open>Method Not Allowed\<close> as body (no JSON text), whatever the request's
  body is; nothing is parsed, the provider is not called, nothing is logged.
\<close>

theorem non_post_gives_405:
  assumes "httpMethod e \<noteq> ''POST''"
  shows "handler rt ev create e =
           \<lparr>result = Some \<lparr>statusCode = 405, response_body = ''Method Not Allowed''\<rparr>,
            trace = []\<rparr>"
  using assms by (simp add: handler_def)

theorem non_post_gives_405_witness:
  "httpMethod \<lparr>httpMethod = ''GET'', body = Some body_widgets\<rparr> \<noteq> ''POST''
   \<and> handler sample_runtime sample_env accepting \<lparr>httpMethod = ''GET'', body = Some body_widgets\<rparr> =
       \<lparr>result = Some \<lparr>statusCode = 405, response_body = ''Method Not Allowed''\<rparr>,
        trace = []\<rparr>"
proof -
  have g: "httpMethod \<lparr>httpMethod = ''GET'', body = Some body_widgets\<rparr> \<noteq> ''POST''"
    by simp
  from non_post_gives_405 [OF g] g show ?thesis
    by simp
qed

section \<open>The fields of a line item\<close>

text \<open>
  C6. For every purchase item, the currency of its line item is the string \<^verbatim>\<open>usd\<close>,
  its product name is \<^verbatim>\<open>item.name\<close> as it is (\<^verbatim>\<open>undefined\<close> when the item has no name),
  and its unit amount is \<^verbatim>\<open>item.price\<close> as it is (a negative or non-integer price
  included).
\<close>

theorem line_item_copies_name_and_price:
  assumes "items_map rt items = Inr lis" and "i < length items"
  shows "own_prop (own_prop (lis ! i) ''price_data'') ''currency'' = JStr ''usd''
       \<and> own_prop (own_prop (own_prop (lis ! i) ''price_data'') ''product_data'') ''name''
           = own_prop (items ! i) ''name''
       \<and> own_prop (own_prop (lis ! i) ''price_data'') ''unit_amount''
           = own_prop (items ! i) ''price''"
proof -
  have "lis ! i =
     JObj [(''price_data'', JObj
              [(''currency'', JStr ''usd''),
               (''product_data'', JObj [(''name'', own_prop (items ! i) ''name'')]),
               (''unit_amount'', own_prop (items ! i) ''price'')]),
           (''quantity'', js_or (own_prop (items ! i) ''quantity'') (JNum (Finite 1)))]"
    using assms by (rule items_map_nth_object)
  then show ?thesis
    by simp
qed

theorem line_item_copies_name_and_price_witness:
  "items_map sample_runtime loose_items = Inr loose_lines
   \<and> length loose_items = 3
   \<and> own_prop (loose_items ! 0) ''name'' = JUndefined
   \<and> own_prop (loose_items ! 0) ''price'' = JNum (Finite (- 9 / 2))
   \<and> own_prop (own_prop (loose_lines ! 0) ''price_data'') ''currency'' = JStr ''usd''
   \<and> own_prop (own_prop (own_prop (loose_lines ! 0) ''price_data'') ''product_data'') ''name''
       = JUndefined
   \<and> own_prop (own_prop (loose_lines ! 0) ''price_data'') ''unit_amount''
       = JNum (Finite (- 9 / 2))
   \<and> items_map sample_runtime widgets = Inr widget_lines
   \<and> length widgets = 3
   \<and> own_prop (own_prop (widget_lines ! 2) ''price_data'') ''currency'' = JStr ''usd''
   \<and> own_prop (own_prop (own_prop (widget_lines ! 2) ''price_data'') ''product_data'') ''name''
       = JStr ''Widget''
   \<and> own_prop (own_prop (widget_lines ! 2) ''price_data'') ''unit_amount'' = JNum (Finite 499)"
proof -
  have m: "items_map sample_runtime loose_items = Inr loose_lines"
    by (rule loose_items_map)
  have w: "items_map sample_runtime widgets = Inr widget_lines"
    by (rule widgets_map)
  have l: "length loose_items = 3" and n: "length widgets = 3"
    by (simp_all add: loose_items_def widgets_def)
  have i0: "own_prop (loose_items ! 0) ''name'' = JUndefined"
    "own_prop (loose_items ! 0) ''price'' = JNum (Finite (- 9 / 2))"
    by (simp_all add: loose_items_def)
  have i2: "own_prop (widgets ! 2) ''name'' = JStr ''Widget''"
    "own_prop (widgets ! 2) ''price'' = JNum (Finite 499)"
    by (simp_all add: widgets_def)
  have "own_prop (own_prop (loose_lines ! 0) ''price_data'') ''currency'' = JStr ''usd''
   \<and> own_prop (own_prop (own_prop (loose_lines ! 0) ''price_data'') ''product_data'') ''name''
       = JUndefined
   \<and> own_prop (own_prop (loose_lines ! 0) ''price_data'') ''unit_amount''
       = JNum (Finite (- 9 / 2))"
    using line_item_copies_name_and_price [OF m, of 0] l i0 by simp
  moreover have "own_prop (own_prop (widget_lines ! 2) ''price_data'') ''currency'' = JStr ''usd''
   \<and> own_prop (own_prop (own_prop (widget_lines ! 2) ''price_data'') ''product_data'') ''name''
       = JStr ''Widget''
   \<and> own_prop (own_prop (widget_lines ! 2) ''price_data'') ''unit_amount'' = JNum (Finite 499)"
    using line_item_copies_name_and_price [OF w, of 2] n i2 by simp
  ultimately show ?thesis
    using m w l n i0 by simp
qed

section \<open>The call of the provider\<close>

text \<open>
  C7, as the code has it. On a POST request that passes the shape check and whose items
  array has no \<^verbatim>\<open>null\<close> or \<^verbatim>\<open>undefined\<close> element (so that the transform completes), the
  provider's session creation is called exactly once, with: \<^verbatim>\<open>card\<close> as the only
  payment method, the transformed line items, the mode \<^verbatim>\<open>payment\<close>, and the success
  and cancel URLs of the configuration, each replaced by its placeholder when the
  configured value is absent or empty.
\<close>

theorem provider_called_once_when_transform_completes:
  assumes "httpMethod e = ''POST''"
    and "JSON_parse rt (str_or (body e) ''{}'') = Inr parsed"
    and "\<not> nullish parsed"
    and "own_prop parsed ''items'' = JArr xs"
    and "\<forall>x\<in>set xs. \<not> nullish x"
  shows "\<exists>lis. items_map rt xs = Inr lis
           \<and> provider_calls (trace (handler rt ev create e)) =
               [JObj [(''payment_method_types'', JArr [JStr ''card'']),
                      (''line_items'', JArr lis),
                      (''mode'', JStr ''payment''),
                      (''success_url'', JStr
                         (case SUCCESS_URL ev of
                            None \<Rightarrow> ''https://example.com/success''
                          | Some s \<Rightarrow> if s = [] then ''https://example.com/success'' else s)),
                      (''cancel_url'', JStr
                         (case CANCEL_URL ev of
                            None \<Rightarrow> ''https://example.com/cancel''
                          | Some s \<Rightarrow> if s = [] then ''https://example.com/cancel'' else s))]]"
proof -
  from assms(5) obtain lis where m: "items_map rt xs = Inr lis"
    using items_map_total by blast
  have "provider_calls (trace (handler rt ev create e)) = [session_params ev lis]"
    using assms(1,2,3,4) m by (rule provider_called_once)
  then have "provider_calls (trace (handler rt ev create e)) =
               [JObj [(''payment_method_types'', JArr [JStr ''card'']),
                      (''line_items'', JArr lis),
                      (''mode'', JStr ''payment''),
                      (''success_url'', JStr
                         (case SUCCESS_URL ev of
                            None \<Rightarrow> ''https://example.com/success''
                          | Some s \<Rightarrow> if s = [] then ''https://example.com/success'' else s)),
                      (''cancel_url'', JStr
                         (case CANCEL_URL ev of
                            None \<Rightarrow> ''https://example.com/cancel''
                          | Some s \<Rightarrow> if s = [] then ''https://example.com/cancel'' else s))]]"
    by (simp add: session_params_def split: option.splits)
  with m show ?thesis by blast
qed

theorem provider_called_once_when_transform_completes_witness:
  "httpMethod (POST body_widgets) = ''POST''
   \<and> JSON_parse sample_runtime (str_or (body (POST body_widgets)) ''{}'')
       = Inr (JObj [(''items'', JArr widgets)])
   \<and> \<not> list_ex nullish widgets
   \<and> SUCCESS_URL sample_env = Some ''https://shop.example/thanks''
   \<and> CANCEL_URL sample_env = None
   \<and> provider_calls (trace (handler sample_runtime sample_env accepting (POST body_widgets))) =
       [JObj [(''payment_method_types'', JArr [JStr ''card'']),
              (''line_items'', JArr widget_lines),
              (''mode'', JStr ''payment''),
              (''success_url'', JStr ''https://shop.example/thanks''),
              (''cancel_url'', JStr ''https://example.com/cancel'')]]"
proof -
  have p: "JSON_parse sample_runtime (str_or (body (POST body_widgets)) ''{}'')
       = Inr (JObj [(''items'', JArr widgets)])"
    by (simp add: POST_simps body_nonempty sample_runtime_simps sample_parse_simps)
  have v: "\<forall>x\<in>set widgets. \<not> nullish x"
    by (simp add: widgets_def)
  have u: "SUCCESS_URL sample_env = Some ''https://shop.example/thanks''"
    and c: "CANCEL_URL sample_env = None"
    by (simp_all add: sample_env_def)
  have "provider_calls (trace (handler sample_runtime sample_env accepting (POST body_widgets))) =
       [JObj [(''payment_method_types'', JArr [JStr ''card'']),
              (''line_items'', JArr widget_lines),
              (''mode'', JStr ''payment''),
              (''success_url'', JStr ''https://shop.example/thanks''),
              (''cancel_url'', JStr ''https://example.com/cancel'')]]"
    using provider_called_once_when_transform_completes
      [OF _ p _ _ v, of sample_env accepting] u c
    by (auto simp: POST_simps widgets_map)
  then show ?thesis
    using p v u c by (simp add: POST_simps list_ex_iff)
qed

text \<open>
  The claim C7 as it is written covers every POST request that passes the shape check.
  On the body \<^verbatim>\<open>{"items":[null]}\<close> the items field is an array, so the request passes
  the shape check, and the provider is not called: the transform throws on the
  \<^verbatim>\<open>null\<close> element.
\<close>

theorem provider_not_called_on_null_item:
  "httpMethod (POST body_null_item) = ''POST''
   \<and> JSON_parse sample_runtime (str_or (body (POST body_null_item)) ''{}'')
       = Inr (JObj [(''items'', JArr [JNull])])
   \<and> isArray (own_prop (JObj [(''items'', JArr [JNull])]) ''items'')
   \<and> provider_calls (trace (handler sample_runtime sample_env accepting (POST body_null_item)))
       = []"
proof -
  have p: "JSON_parse sample_runtime (str_or (body (POST body_null_item)) ''{}'')
       = Inr (JObj [(''items'', JArr [JNull])])"
    by (simp add: POST_simps body_nonempty sample_runtime_simps sample_parse_simps)
  have "checkout sample_runtime sample_env accepting (JObj [(''items'', JArr [JNull])])
      = ([], Threw (type_error sample_runtime Read JNull ''name''))"
    by (simp add: checkout_array line_item_nullish)
  then have "provider_calls (trace (handler sample_runtime sample_env accepting (POST body_null_item)))
       = []"
    using p by (simp add: handler_POST POST_simps)
  with p show ?thesis
    by (simp add: POST_simps)
qed

section \<open>Success\<close>

text \<open>
  C8. On a POST request with a valid items array, when the provider's call resolves
  with a session, the response has status 200 and the JSON body with the session's URL
  under \<^verbatim>\<open>url\<close>. In particular, for an empty items array the provider is called with
  an empty list of line items and its URL is relayed.
\<close>

theorem success_gives_200:
  assumes "httpMethod e = ''POST''"
    and "JSON_parse rt (str_or (body e) ''{}'') = Inr parsed"
    and "\<not> nullish parsed"
    and "own_prop parsed ''items'' = JArr xs"
    and "items_map rt xs = Inr lis"
    and "create (session_params ev lis) = Resolved session"
    and "\<not> nullish session"
  shows "handler rt ev create e =
           \<lparr>result = Some \<lparr>statusCode = 200,
              response_body = JSON_stringify rt (JObj [(''url'', own_prop session ''url'')])\<rparr>,
            trace = [ParseCall (str_or (body e) ''{}''), CreateCall (session_params ev lis)]\<rparr>
       \<and> own_prop (session_params ev lis) ''line_items'' = JArr lis
       \<and> (xs = [] \<longrightarrow> lis = [])"
proof -
  from assms(3,4,5)
  have "checkout rt ev create parsed = create_session rt create (session_params ev lis)"
    by (simp add: checkout_array)
  with assms(6,7) have "checkout rt ev create parsed =
      ([CreateCall (session_params ev lis)],
       Returned \<lparr>statusCode = 200,
                 response_body = JSON_stringify rt (JObj [(''url'', own_prop session ''url'')])\<rparr>)"
    by (simp add: create_session_def get_prop_def)
  with assms(1,2) have "handler rt ev create e =
           \<lparr>result = Some \<lparr>statusCode = 200,
              response_body = JSON_stringify rt (JObj [(''url'', own_prop session ''url'')])\<rparr>,
            trace = [ParseCall (str_or (body e) ''{}''), CreateCall (session_params ev lis)]\<rparr>"
    by (simp add: handler_POST)
  moreover have "own_prop (session_params ev lis) ''line_items'' = JArr lis"
    by (simp add: session_params_def)
  moreover have "xs = [] \<longrightarrow> lis = []"
    using assms(5) by auto
  ultimately show ?thesis by blast
qed

theorem success_gives_200_witness:
  "JSON_parse sample_runtime (str_or (body (POST body_widgets)) ''{}'')
       = Inr (JObj [(''items'', JArr widgets)])
   \<and> items_map sample_runtime widgets = Inr widget_lines
   \<and> accepting (session_params sample_env widget_lines) = Resolved sample_session
   \<and> \<not> nullish sample_session
   \<and> handler sample_runtime sample_env accepting (POST body_widgets) =
       \<lparr>result = Some \<lparr>statusCode = 200,
          response_body = sample_stringify
            (JObj [(''url'', JStr ''https://checkout.example/cs_test_1'')])\<rparr>,
        trace = [ParseCall body_widgets, CreateCall (session_params sample_env widget_lines)]\<rparr>
   \<and> JSON_parse sample_runtime (str_or (body (POST body_no_items)) ''{}'')
       = Inr (JObj [(''items'', JArr [])])
   \<and> items_map sample_runtime [] = Inr []
   \<and> handler sample_runtime sample_env accepting (POST body_no_items) =
       \<lparr>result = Some \<lparr>statusCode = 200,
          response_body = sample_stringify
            (JObj [(''url'', JStr ''https://checkout.example/cs_test_1'')])\<rparr>,
        trace = [ParseCall body_no_items, CreateCall (session_params sample_env [])]\<rparr>
   \<and> own_prop (session_params sample_env []) ''line_items'' = JArr []"
proof -
  have p: "JSON_parse sample_runtime (str_or (body (POST body_widgets)) ''{}'')
       = Inr (JObj [(''items'', JArr widgets)])"
    and p0: "JSON_parse sample_runtime (str_or (body (POST body_no_items)) ''{}'')
       = Inr (JObj [(''items'', JArr [])])"
    by (simp_all add: POST_simps body_nonempty sample_runtime_simps sample_parse_simps)
  have m: "items_map sample_runtime widgets = Inr widget_lines"
    by (rule widgets_map)
  have m0: "items_map sample_runtime [] = Inr []"
    by simp
  have a: "accepting (session_params sample_env lis) = Resolved sample_session" for lis
    by (simp add: accepting_def)
  have s: "\<not> nullish sample_session"
    by (simp add: sample_session_def)
  have "handler sample_runtime sample_env accepting (POST body_widgets) =
       \<lparr>result = Some \<lparr>statusCode = 200,
          response_body = sample_stringify
            (JObj [(''url'', JStr ''https://checkout.example/cs_test_1'')])\<rparr>,
        trace = [ParseCall body_widgets, CreateCall (session_params sample_env widget_lines)]\<rparr>"
    using success_gives_200 [where e = "POST body_widgets" and rt = sample_runtime
        and ev = sample_env and create = accepting and xs = widgets and lis = widget_lines
        and parsed = "JObj [(''items'', JArr widgets)]" and session = sample_session] p m a s
    by (simp add: POST_simps body_nonempty sample_runtime_simps sample_session_def)
  moreover have "handler sample_runtime sample_env accepting (POST body_no_items) =
       \<lparr>result = Some \<lparr>statusCode = 200,
          response_body = sample_stringify
            (JObj [(''url'', JStr ''https://checkout.example/cs_test_1'')])\<rparr>,
        trace = [ParseCall body_no_items, CreateCall (session_params sample_env [])]\<rparr>
      \<and> own_prop (session_params sample_env []) ''line_items'' = JArr []"
    using success_gives_200 [where e = "POST body_no_items" and rt = sample_runtime
        and ev = sample_env and create = accepting and xs = "[]" and lis = "[]"
        and parsed = "JObj [(''items'', JArr [])]" and session = sample_session] p0 a s
    by (simp add: POST_simps body_nonempty sample_runtime_simps sample_session_def)
  ultimately show ?thesis
    using p p0 m m0 a s by simp
qed

section \<open>Null bodies and null items\<close>

text \<open>
  C9. On a POST request whose body is the JSON text \<^verbatim>\<open>null\<close>, which parses to the
  value \<^verbatim>\<open>null\<close>, the destructuring of \<^verbatim>\<open>items\<close> throws: the response has status 500,
  from the catch clause; it is neither the 400 response nor a success.
\<close>

theorem null_body_gives_500:
  assumes "httpMethod e = ''POST''"
    and "body e = Some ''null''"
    and "JSON_parse rt ''null'' = Inr JNull"
  shows "handler rt ev create e =
           \<lparr>result = Some \<lparr>statusCode = 500,
              response_body = JSON_stringify rt
                (JObj [(''error'', JStr (TypeError_message rt Destructure JNull ''items''))])\<rparr>,
            trace = [ParseCall ''null'',
                     ConsoleError ''Stripe checkout error:''
                       \<lparr>error_name = ''TypeError'',
                        message = TypeError_message rt Destructure JNull ''items''\<rparr>]\<rparr>"
proof -
  have "checkout rt ev create JNull = ([], Threw (type_error rt Destructure JNull ''items''))"
    by (simp add: checkout_def get_prop_def)
  with assms show ?thesis
    by (simp add: handler_POST type_error_def)
qed

theorem null_body_gives_500_witness:
  "httpMethod (POST ''null'') = ''POST''
   \<and> body (POST ''null'') = Some ''null''
   \<and> JSON_parse sample_runtime ''null'' = Inr JNull
   \<and> handler sample_runtime sample_env accepting (POST ''null'') =
       \<lparr>result = Some \<lparr>statusCode = 500,
          response_body = sample_stringify
            (JObj [(''error'', JStr (sample_message Destructure JNull ''items''))])\<rparr>,
        trace = [ParseCall ''null'',
                 ConsoleError ''Stripe checkout error:''
                   \<lparr>error_name = ''TypeError'',
                    message = sample_message Destructure JNull ''items''\<rparr>]\<rparr>"
proof -
  have p: "JSON_parse sample_runtime ''null'' = Inr JNull"
    by (simp add: sample_runtime_simps sample_parse_simps)
  from null_body_gives_500 [OF _ _ p, of "POST ''null''" sample_env accepting] p
  show ?thesis
    by (simp add: POST_simps sample_runtime_simps)
qed

text \<open>
  C10. On a POST request whose items array has a \<^verbatim>\<open>null\<close> or \<^verbatim>\<open>undefined\<close> element, the
  transform throws when it reads the \<^verbatim>\<open>name\<close> of the first such element: the response
  has status 500, from the catch clause, and the provider is not called. An element
  that is a number, a string or a boolean does not throw: its line item has the name
  and the unit amount \<^verbatim>\<open>undefined\<close> and the quantity 1.
\<close>

theorem null_item_gives_500:
  assumes "httpMethod e = ''POST''"
    and "JSON_parse rt (str_or (body e) ''{}'') = Inr parsed"
    and "\<not> nullish parsed"
  shows "(own_prop parsed ''items'' = JArr xs \<and> (\<exists>x\<in>set xs. nullish x) \<longrightarrow>
            (\<exists>x. find nullish xs = Some x \<and> nullish x
               \<and> handler rt ev create e =
                   \<lparr>result = Some \<lparr>statusCode = 500,
                      response_body = JSON_stringify rt
                        (JObj [(''error'', JStr (TypeError_message rt Read x ''name''))])\<rparr>,
                    trace = [ParseCall (str_or (body e) ''{}''),
                             ConsoleError ''Stripe checkout error:''
                               \<lparr>error_name = ''TypeError'',
                                message = TypeError_message rt Read x ''name''\<rparr>]\<rparr>
               \<and> provider_calls (trace (handler rt ev create e)) = []))
       \<and> (item \<in> range JNum \<union> range JStr \<union> range JBool \<longrightarrow>
            line_item rt item =
              Inr (JObj
                [(''price_data'', JObj
                    [(''currency'', JStr ''usd''),
                     (''product_data'', JObj [(''name'', JUndefined)]),
                     (''unit_amount'', JUndefined)]),
                 (''quantity'', JNum (Finite 1))]))"
proof (intro conjI impI)
  assume a: "own_prop parsed ''items'' = JArr xs \<and> (\<exists>x\<in>set xs. nullish x)"
  then obtain x where x: "find nullish xs = Some x" "nullish x"
    using find_nullish by blast
  then have "items_map rt xs = Inl (type_error rt Read x ''name'')"
    by (simp add: items_map_find_nullish)
  with a assms(3) have "checkout rt ev create parsed = ([], Threw (type_error rt Read x ''name''))"
    by (simp add: checkout_array)
  with assms(1,2) have h: "handler rt ev create e =
              \<lparr>result = Some \<lparr>statusCode = 500,
                 response_body = JSON_stringify rt
                   (JObj [(''error'', JStr (TypeError_message rt Read x ''name''))])\<rparr>,
               trace = [ParseCall (str_or (body e) ''{}''),
                        ConsoleError ''Stripe checkout error:''
                          \<lparr>error_name = ''TypeError'',
                           message = TypeError_message rt Read x ''name''\<rparr>]\<rparr>"
    by (simp add: handler_POST type_error_def)
  have "provider_calls (trace (handler rt ev create e)) = []"
    unfolding h by simp
  with x h show "\<exists>x. find nullish xs = Some x \<and> nullish x
               \<and> handler rt ev create e =
                   \<lparr>result = Some \<lparr>statusCode = 500,
                      response_body = JSON_stringify rt
                        (JObj [(''error'', JStr (TypeError_message rt Read x ''name''))])\<rparr>,
                    trace = [ParseCall (str_or (body e) ''{}''),
                             ConsoleError ''Stripe checkout error:''
                               \<lparr>error_name = ''TypeError'',
                                message = TypeError_message rt Read x ''name''\<rparr>]\<rparr>
               \<and> provider_calls (trace (handler rt ev create e)) = []"
    by blast
next
  assume "item \<in> range JNum \<union> range JStr \<union> range JBool"
  then show "line_item rt item =
              Inr (JObj
                [(''price_data'', JObj
                    [(''currency'', JStr ''usd''),
                     (''product_data'', JObj [(''name'', JUndefined)]),
                     (''unit_amount'', JUndefined)]),
                 (''quantity'', JNum (Finite 1))])"
    by (auto simp: line_item_def get_prop_def js_or_def)
qed

theorem null_item_gives_500_witness:
  "httpMethod (POST body_mixed) = ''POST''
   \<and> JSON_parse sample_runtime (str_or (body (POST body_mixed)) ''{}'')
       = Inr (JObj [(''items'', JArr mixed_items)])
   \<and> list_ex nullish mixed_items
   \<and> find nullish mixed_items = Some JNull
   \<and> handler sample_runtime sample_env accepting (POST body_mixed) =
       \<lparr>result = Some \<lparr>statusCode = 500,
          response_body = sample_stringify
            (JObj [(''error'', JStr (sample_message Read JNull ''name''))])\<rparr>,
        trace = [ParseCall body_mixed,
                 ConsoleError ''Stripe checkout error:''
                   \<lparr>error_name = ''TypeError'',
                    message = sample_message Read JNull ''name''\<rparr>]\<rparr>
   \<and> provider_calls (trace (handler sample_runtime sample_env accepting (POST body_mixed))) = []
   \<and> line_item sample_runtime (JNum (Finite 7)) =
       Inr (JObj
         [(''price_data'', JObj
             [(''currency'', JStr ''usd''),
              (''product_data'', JObj [(''name'', JUndefined)]),
              (''unit_amount'', JUndefined)]),
          (''quantity'', JNum (Finite 1))])
   \<and> line_item sample_runtime (JStr ''x'') =
       Inr (JObj
         [(''price_data'', JObj
             [(''currency'', JStr ''usd''),
              (''product_data'', JObj [(''name'', JUndefined)]),
              (''unit_amount'', JUndefined)]),
          (''quantity'', JNum (Finite 1))])"
proof -
  have p: "JSON_parse sample_runtime (str_or (body (POST body_mixed)) ''{}'')
       = Inr (JObj [(''items'', JArr mixed_items)])"
    by (simp add: POST_simps body_nonempty sample_runtime_simps sample_parse_simps)
  have f: "find nullish mixed_items = Some JNull"
    by (simp add: mixed_items_def)
  have c: "\<exists>x\<in>set mixed_items. nullish x"
    by (simp add: mixed_items_def)
  have n: "\<not> nullish (JObj [(''items'', JArr mixed_items)])"
    by simp
  note t = null_item_gives_500 [where e = "POST body_mixed" and rt = sample_runtime
      and ev = sample_env and create = accepting
      and parsed = "JObj [(''items'', JArr mixed_items)]", OF _ p n]
  have "handler sample_runtime sample_env accepting (POST body_mixed) =
       \<lparr>result = Some \<lparr>statusCode = 500,
          response_body = sample_stringify
            (JObj [(''error'', JStr (sample_message Read JNull ''name''))])\<rparr>,
        trace = [ParseCall body_mixed,
                 ConsoleError ''Stripe checkout error:''
                   \<lparr>error_name = ''TypeError'',
                    message = sample_message Read JNull ''name''\<rparr>]\<rparr>
   \<and> provider_calls (trace (handler sample_runtime sample_env accepting (POST body_mixed))) = []"
    using t [where xs = mixed_items] c f
    by (auto simp: POST_simps body_nonempty sample_runtime_simps)
  moreover have "line_item sample_runtime (JNum (Finite 7)) =
       Inr (JObj
         [(''price_data'', JObj
             [(''currency'', JStr ''usd''),
              (''product_data'', JObj [(''name'', JUndefined)]),
              (''unit_amount'', JUndefined)]),
          (''quantity'', JNum (Finite 1))])"
    using t [where item = "JNum (Finite 7)"] by (simp add: POST_simps)
  moreover have "line_item sample_runtime (JStr ''x'') =
       Inr (JObj
         [(''price_data'', JObj
             [(''currency'', JStr ''usd''),
              (''product_data'', JObj [(''name'', JUndefined)]),
              (''unit_amount'', JUndefined)]),
          (''quantity'', JNum (Finite 1))])"
    using t [where item = "JStr ''x''"] by (simp add: POST_simps)
  ultimately show ?thesis
    using p f c by (simp add: POST_simps list_ex_iff)
qed

end
